theory Spec2Isabelle
  imports
    Main
    "HOL-Library.Word"
    "HOL-Library.Char_ord"
    "HOL-Library.List_Lexorder"
    "HOL-Library.Multiset"
begin

section \<open>The library catalog: models and admin registration\<close>

text \<open>
  The two modules under verification are \<^verbatim>\<open>catalog/models.py\<close> (five model classes)
  and \<^verbatim>\<open>catalog/admin.py\<close> (their registration with the admin site). A model class
  becomes a record of its fields, a field declaration becomes a record of the options
  the source passes, and every method of a model becomes a function on the record. Text
  is a \<^typ>\<open>string\<close>, one \<^typ>\<open>char\<close> standing for one character of the Python string.
\<close>

subsection \<open>Python values used by the models\<close>

datatype error =
    AttributeError
  | DoesNotExist
  | ProtectedError
  | AlreadyRegistered
  | ValidationError string

text \<open>\<^verbatim>\<open>sep.join(xs)\<close> of Python.\<close>

fun join :: "string \<Rightarrow> string list \<Rightarrow> string" where
  "join sep [] = []"
| "join sep [x] = x"
| "join sep (x # y # ys) = x @ sep @ join sep (y # ys)"

text \<open>
  An f-string is the concatenation of its pieces, each replacement field formatted with
  an empty format specification; for a \<^verbatim>\<open>str\<close> that is the string itself.
\<close>

definition format_str :: "string \<Rightarrow> string" where
  "format_str s = s"

text \<open>
  Fixed-width numerals, as \<^verbatim>\<open>'%032x' % n\<close> prints a number below \<open>16 ^ 32\<close> and
  \<^verbatim>\<open>'%04d' % n\<close> one below \<open>10 ^ 4\<close>: exactly \<open>w\<close> digits, padded with zeros. The callers
  below stay in that range (a UUID has 128 bits, a Python date has a year of at most 9999).
\<close>

definition digit :: "nat \<Rightarrow> char" where
  "digit n = ''0123456789abcdef'' ! (n mod 16)"

fun numeral_of :: "nat \<Rightarrow> nat \<Rightarrow> nat \<Rightarrow> string" where
  "numeral_of base 0 n = []"
| "numeral_of base (Suc w) n = numeral_of base w (n div base) @ [digit (n mod base)]"

text \<open>\<^verbatim>\<open>uuid.UUID.__str__\<close>: 32 hexadecimal digits in groups of 8, 4, 4, 4 and 12.\<close>

type_synonym uuid = "128 word"

definition uuid_str :: "uuid \<Rightarrow> string" where
  "uuid_str u =
     (let hex = numeral_of 16 32 (unat u)
      in take 8 hex @ ''-'' @ take 4 (drop 8 hex) @ ''-'' @ take 4 (drop 12 hex) @ ''-''
         @ take 4 (drop 16 hex) @ ''-'' @ drop 20 hex)"

text \<open>\<^verbatim>\<open>datetime.date\<close> and its \<^verbatim>\<open>__str__\<close>, the ISO form \<^verbatim>\<open>YYYY-MM-DD\<close>.\<close>

record date =
  year :: nat
  month :: nat
  day :: nat

definition date_str :: "date \<Rightarrow> string" where
  "date_str d =
     numeral_of 10 4 (year d) @ ''-'' @ numeral_of 10 2 (month d) @ ''-'' @ numeral_of 10 2 (day d)"

text \<open>Formatting an optional date in an f-string: \<^verbatim>\<open>None\<close> prints as \<^verbatim>\<open>None\<close>.\<close>

definition format_date_option :: "date option \<Rightarrow> string" where
  "format_date_option d = (case d of None \<Rightarrow> ''None'' | Some x \<Rightarrow> date_str x)"

subsection \<open>Field declarations\<close>

text \<open>
  A \<^verbatim>\<open>CharField\<close> with the options the source passes; an option the source leaves out
  has the framework's default (\<^verbatim>\<open>blank=False\<close>, \<^verbatim>\<open>null=False\<close>, no choices, no default).
\<close>

record CharField =
  max_length :: nat
  blank :: bool
  null :: bool
  choices :: "(string \<times> string) list option"
  default :: "string option"

definition char_field :: "nat \<Rightarrow> CharField" where
  "char_field n = \<lparr>max_length = n, blank = False, null = False, choices = None, default = None\<rparr>"

datatype model = Author_model | Genre_model | Book_model | Language_model | BookInstance_model

datatype on_delete = CASCADE | PROTECT | SET_NULL | DO_NOTHING

record ForeignKey =
  to :: model
  fk_on_delete :: on_delete
  fk_null :: bool

subsection \<open>The models\<close>

text \<open>\<^verbatim>\<open>class Genre\<close> and \<^verbatim>\<open>class Language\<close>: a name; the framework adds the numeric id.\<close>

record Genre =
  Genre_id :: nat
  Genre_name :: string

definition Genre_name_field :: CharField where
  "Genre_name_field = char_field 200"

definition Genre_str :: "Genre \<Rightarrow> string" where
  "Genre_str self = Genre_name self"

record Language =
  Language_id :: nat
  Language_name :: string

definition Language_name_field :: CharField where
  "Language_name_field = char_field 200"

definition Language_str :: "Language \<Rightarrow> string" where
  "Language_str self = Language_name self"

text \<open>
  \<^verbatim>\<open>class Book\<close>. The foreign key \<open>author\<close> holds the id of the author row or \<^verbatim>\<open>None\<close>;
  \<open>genre\<close> is what \<^verbatim>\<open>self.genre.all()\<close> returns, the related genres in the order of the query.
\<close>

record Book =
  Book_id :: nat
  title :: string
  author :: "nat option"
  summary :: string
  isbn :: string
  genre :: "Genre list"

definition Book_title_field :: CharField where
  "Book_title_field = char_field 200"

definition Book_author_field :: ForeignKey where
  "Book_author_field = \<lparr>to = Author_model, fk_on_delete = SET_NULL, fk_null = True\<rparr>"

definition Book_isbn_field :: CharField where
  "Book_isbn_field = char_field 13"

definition Book_str :: "Book \<Rightarrow> string" where
  "Book_str self = title self"

text \<open>
  \<^verbatim>\<open>', '.join(genre.name for genre in self.genre.all()[:3])\<close>: the slice keeps the first three
  rows of the query, or all of them when there are fewer.
\<close>

definition display_genre :: "Book \<Rightarrow> string" where
  "display_genre self = join '', '' (map Genre_name (take 3 (genre self)))"

text \<open>\<^verbatim>\<open>class Author\<close>.\<close>

record Author =
  Author_id :: nat
  first_name :: string
  last_name :: string
  date_of_birth :: "date option"
  date_of_death :: "date option"

definition Author_first_name_field :: CharField where
  "Author_first_name_field = char_field 100"

definition Author_last_name_field :: CharField where
  "Author_last_name_field = char_field 100"

text \<open>\<^verbatim>\<open>f'{self.last_name}, {self.first_name}'\<close>\<close>

definition Author_str :: "Author \<Rightarrow> string" where
  "Author_str self = concat [format_str (last_name self), '', '', format_str (first_name self)]"

text \<open>
  \<^verbatim>\<open>Meta.ordering = ['last_name', 'first_name']\<close>: each name stands for the field it
  names. The default query of a model returns its rows sorted by the listed fields, the
  first one deciding and each later one breaking the ties of those before it; text is
  compared character by character.
\<close>

definition Author_ordering :: "(Author \<Rightarrow> string) list" where
  "Author_ordering = [last_name, first_name]"

definition order_by :: "('r \<Rightarrow> 'k::linorder) list \<Rightarrow> 'r list \<Rightarrow> 'r list" where
  "order_by keys rows = sort_key (\<lambda>r. map (\<lambda>f. f r) keys) rows"

definition Author_objects_all :: "Author list \<Rightarrow> Author list" where
  "Author_objects_all rows = order_by Author_ordering rows"

text \<open>\<^verbatim>\<open>class BookInstance\<close>: the primary key is a UUID, \<open>book\<close> the id of a book row or \<^verbatim>\<open>None\<close>.\<close>

definition LOAN_STATUS :: "(string \<times> string) list" where
  "LOAN_STATUS =
     [(''m'', ''Maintenance''), (''o'', ''On loan''), (''a'', ''Available''), (''r'', ''Reserved'')]"

record BookInstance =
  BookInstance_id :: uuid
  book :: "nat option"
  imprint :: string
  due_back :: "date option"
  status :: string

definition BookInstance_book_field :: ForeignKey where
  "BookInstance_book_field = \<lparr>to = Book_model, fk_on_delete = SET_NULL, fk_null = True\<rparr>"

definition BookInstance_imprint_field :: CharField where
  "BookInstance_imprint_field = char_field 200"

definition BookInstance_status_field :: CharField where
  "BookInstance_status_field =
     \<lparr>max_length = 1, blank = True, null = False, choices = Some LOAN_STATUS, default = Some ''m''\<rparr>"

text \<open>
  Creating an instance: a field the caller passes no value for takes the field's default,
  which for a \<^verbatim>\<open>CharField\<close> that declares none is the empty string. The id defaults to
  \<^verbatim>\<open>uuid.uuid4()\<close>; \<open>fresh\<close> is the value that call returns.
\<close>

definition get_default :: "CharField \<Rightarrow> string" where
  "get_default f = (case default f of Some d \<Rightarrow> d | None \<Rightarrow> [])"

definition BookInstance_init ::
  "uuid \<Rightarrow> uuid option \<Rightarrow> nat option \<Rightarrow> string option \<Rightarrow> date option \<Rightarrow> string option \<Rightarrow> BookInstance"
where
  "BookInstance_init fresh id_arg book_arg imprint_arg due_back_arg status_arg =
     \<lparr>BookInstance_id = (case id_arg of Some u \<Rightarrow> u | None \<Rightarrow> fresh),
      book = book_arg,
      imprint = (case imprint_arg of Some s \<Rightarrow> s | None \<Rightarrow> get_default BookInstance_imprint_field),
      due_back = due_back_arg,
      status = (case status_arg of Some s \<Rightarrow> s | None \<Rightarrow> get_default BookInstance_status_field)\<rparr>"

text \<open>
  \<^verbatim>\<open>get_status_display()\<close>, which a field with choices brings: the label of the stored
  value, or the value itself when it is not among the choices.
\<close>

definition get_status_display :: "BookInstance \<Rightarrow> string" where
  "get_status_display self =
     (case map_of LOAN_STATUS (status self) of Some label \<Rightarrow> label | None \<Rightarrow> status self)"

subsection \<open>The stored catalog\<close>

text \<open>
  The tables that foreign keys connect, each a list of rows. Reading \<^verbatim>\<open>self.book\<close> on an
  instance gives \<^verbatim>\<open>None\<close> when the key is null, and otherwise fetches the book row with
  that id, raising \<^verbatim>\<open>DoesNotExist\<close> when there is none.
\<close>

record catalog =
  authors :: "Author list"
  books :: "Book list"
  instances :: "BookInstance list"

definition get_Book :: "Book list \<Rightarrow> nat \<Rightarrow> error + Book" where
  "get_Book rows k =
     (case find (\<lambda>b. Book_id b = k) rows of None \<Rightarrow> Inl DoesNotExist | Some b \<Rightarrow> Inr b)"

text \<open>
  \<^verbatim>\<open>f'{self.id} ({self.book.title}) {self.status} {self.due_back}'\<close>. The attribute
  \<^verbatim>\<open>title\<close> is read from whatever \<^verbatim>\<open>self.book\<close> is; on \<^verbatim>\<open>None\<close> that read raises
  \<^verbatim>\<open>AttributeError\<close>.
\<close>

definition BookInstance_str :: "catalog \<Rightarrow> BookInstance \<Rightarrow> error + string" where
  "BookInstance_str db self =
     (case book self of
        None \<Rightarrow> Inl AttributeError
      | Some k \<Rightarrow>
          (case get_Book (books db) k of
             Inl e \<Rightarrow> Inl e
           | Inr b \<Rightarrow>
               Inr (concat [uuid_str (BookInstance_id self), '' ('', format_str (title b), '') '',
                            format_str (status self), '' '', format_date_option (due_back self)])))"

subsection \<open>Deleting rows\<close>

text \<open>
  Deleting a row first deals with the rows of other tables whose foreign key points at
  it, as that key's \<^verbatim>\<open>on_delete\<close> says: \<^verbatim>\<open>SET_NULL\<close> writes null into the key,
  \<^verbatim>\<open>CASCADE\<close> deletes the referring rows too, \<^verbatim>\<open>PROTECT\<close> refuses the deletion while a
  referring row exists, \<^verbatim>\<open>DO_NOTHING\<close> leaves them as they are. \<open>collect\<close> returns the
  table of referring rows as it is to be left, and the rows to delete in cascade.
\<close>

definition collect ::
  "on_delete \<Rightarrow> ('r \<Rightarrow> nat option) \<Rightarrow> ('r \<Rightarrow> 'r) \<Rightarrow> nat \<Rightarrow> 'r list \<Rightarrow> error + 'r list \<times> 'r list"
where
  "collect policy fk clear k rows =
     (case policy of
        SET_NULL \<Rightarrow> Inr (map (\<lambda>r. if fk r = Some k then clear r else r) rows, [])
      | CASCADE \<Rightarrow> Inr (filter (\<lambda>r. fk r \<noteq> Some k) rows, filter (\<lambda>r. fk r = Some k) rows)
      | PROTECT \<Rightarrow>
          (if list_ex (\<lambda>r. fk r = Some k) rows then Inl ProtectedError else Inr (rows, []))
      | DO_NOTHING \<Rightarrow> Inr (rows, []))"

definition delete_Book :: "catalog \<Rightarrow> nat \<Rightarrow> error + catalog" where
  "delete_Book db k =
     (case collect (fk_on_delete BookInstance_book_field) book (\<lambda>i. i\<lparr>book := None\<rparr>) k (instances db) of
        Inl e \<Rightarrow> Inl e
      | Inr (kept, cascaded) \<Rightarrow>
          Inr (db\<lparr>instances := kept, books := filter (\<lambda>b. Book_id b \<noteq> k) (books db)\<rparr>))"

fun delete_Books :: "catalog \<Rightarrow> nat list \<Rightarrow> error + catalog" where
  "delete_Books db [] = Inr db"
| "delete_Books db (k # ks) =
     (case delete_Book db k of Inl e \<Rightarrow> Inl e | Inr db' \<Rightarrow> delete_Books db' ks)"

definition delete_Author :: "catalog \<Rightarrow> nat \<Rightarrow> error + catalog" where
  "delete_Author db k =
     (case collect (fk_on_delete Book_author_field) author (\<lambda>b. b\<lparr>author := None\<rparr>) k (books db) of
        Inl e \<Rightarrow> Inl e
      | Inr (kept, cascaded) \<Rightarrow>
          (case delete_Books (db\<lparr>books := kept\<rparr>) (map Book_id cascaded) of
             Inl e \<Rightarrow> Inl e
           | Inr db' \<Rightarrow> Inr (db'\<lparr>authors := filter (\<lambda>a. Author_id a \<noteq> k) (authors db')\<rparr>)))"

text \<open>
  A catalog has no dangling reference when every foreign key that is not null names a
  row of the table it points to.
\<close>

definition resolves :: "nat list \<Rightarrow> nat option \<Rightarrow> bool" where
  "resolves ids ref = (case ref of None \<Rightarrow> True | Some k \<Rightarrow> k \<in> set ids)"

definition no_dangling :: "catalog \<Rightarrow> bool" where
  "no_dangling db =
     (list_all (\<lambda>b. resolves (map Author_id (authors db)) (author b)) (books db) \<and>
      list_all (\<lambda>i. resolves (map Book_id (books db)) (book i)) (instances db))"

subsection \<open>Field validation\<close>

text \<open>
  \<^verbatim>\<open>Field.clean\<close> of the framework, for a \<^verbatim>\<open>CharField\<close>: \<^verbatim>\<open>validate\<close> (choices, null and
  blank, in that order and skipping the choice test on an empty value), then the
  validators, of which a \<^verbatim>\<open>CharField\<close> has the one its \<^verbatim>\<open>max_length\<close> adds and which are
  not run on an empty value. The empty values of a text field are \<^verbatim>\<open>None\<close> and \<^verbatim>\<open>''\<close>.
\<close>

definition empty_value :: "string option \<Rightarrow> bool" where
  "empty_value v = (v = None \<or> v = Some [])"

definition choice_keys :: "CharField \<Rightarrow> string option list" where
  "choice_keys f = (case choices f of None \<Rightarrow> [] | Some cs \<Rightarrow> map (\<lambda>c. Some (fst c)) cs)"

definition validate :: "CharField \<Rightarrow> string option \<Rightarrow> error + unit" where
  "validate f v =
     (if choices f \<noteq> None \<and> \<not> empty_value v then
        (if v \<in> set (choice_keys f) then Inr () else Inl (ValidationError ''invalid_choice''))
      else if v = None \<and> \<not> null f then Inl (ValidationError ''null'')
      else if \<not> blank f \<and> empty_value v then Inl (ValidationError ''blank'')
      else Inr ())"

definition run_validators :: "CharField \<Rightarrow> string option \<Rightarrow> error + unit" where
  "run_validators f v =
     (case v of
        None \<Rightarrow> Inr ()
      | Some s \<Rightarrow>
          (if s = [] then Inr ()
           else if max_length f < length s then Inl (ValidationError ''max_length'')
           else Inr ()))"

definition clean :: "CharField \<Rightarrow> string option \<Rightarrow> error + string option" where
  "clean f v =
     (case validate f v of
        Inl e \<Rightarrow> Inl e
      | Inr _ \<Rightarrow> (case run_validators f v of Inl e \<Rightarrow> Inl e | Inr _ \<Rightarrow> Inr v))"

subsection \<open>The admin site\<close>

text \<open>
  \<^verbatim>\<open>admin.py\<close>. A \<^verbatim>\<open>ModelAdmin\<close> class is the record of the options the module sets, on
  top of the framework's defaults; an inline is named by the model it edits. The site
  keeps a registry of the registered models; registering a model twice raises
  \<^verbatim>\<open>AlreadyRegistered\<close>.
\<close>

record ModelAdmin =
  list_display :: "string list"
  admin_fields :: "string list list option"
  fieldsets :: "(string option \<times> string list) list option"
  list_filter :: "string list"
  inlines :: "model list"

definition default_ModelAdmin :: ModelAdmin where
  "default_ModelAdmin =
     \<lparr>list_display = [''__str__''], admin_fields = None, fieldsets = None, list_filter = [], inlines = []\<rparr>"

definition AuthorAdmin :: ModelAdmin where
  "AuthorAdmin = default_ModelAdmin
     \<lparr>list_display := [''last_name'', ''first_name'', ''date_of_birth'', ''date_of_death''],
      admin_fields := Some [[''first_name''], [''last_name''], [''date_of_birth'', ''date_of_death'']],
      inlines := [Book_model]\<rparr>"

definition BookAdmin :: ModelAdmin where
  "BookAdmin = default_ModelAdmin
     \<lparr>list_display := [''title'', ''author'', ''display_genre''],
      inlines := [BookInstance_model]\<rparr>"

definition BookInstanceAdmin :: ModelAdmin where
  "BookInstanceAdmin = default_ModelAdmin
     \<lparr>list_filter := [''status'', ''due_back''],
      fieldsets := Some [(None, [''book'', ''imprint'', ''id'']),
                         (Some ''Availability'', [''status'', ''due_back''])]\<rparr>"

type_synonym AdminSite = "(model \<times> ModelAdmin) list"

definition is_registered :: "AdminSite \<Rightarrow> model \<Rightarrow> bool" where
  "is_registered site m = (m \<in> set (map fst site))"

definition register :: "model \<Rightarrow> ModelAdmin \<Rightarrow> AdminSite \<Rightarrow> error + AdminSite" where
  "register m a site =
     (if is_registered site m then Inl AlreadyRegistered else Inr (site @ [(m, a)]))"

text \<open>
  The registrations of the module in the order it runs them: the two decorated classes,
  then the two calls at the end of the file.
\<close>

definition admin_py :: "AdminSite \<Rightarrow> error + AdminSite" where
  "admin_py site =
     (case register Book_model BookAdmin site of Inl e \<Rightarrow> Inl e | Inr s1 \<Rightarrow>
      case register BookInstance_model BookInstanceAdmin s1 of Inl e \<Rightarrow> Inl e | Inr s2 \<Rightarrow>
      case register Author_model AuthorAdmin s2 of Inl e \<Rightarrow> Inl e | Inr s3 \<Rightarrow>
      register Genre_model default_ModelAdmin s3)"

section \<open>Properties\<close>

text \<open>
  Claim C1. The display string of an author is the last name, then the two characters
  comma and space, then the first name; an author named Jane Smith displays as
  \<^verbatim>\<open>Smith, Jane\<close>, whatever the id and the dates are.
\<close>

theorem Author_str_last_comma_first:
  "Author_str a = last_name a @ '', '' @ first_name a \<and>
   Author_str \<lparr>Author_id = i, first_name = ''Jane'', last_name = ''Smith'',
     date_of_birth = b, date_of_death = d\<rparr> = ''Smith, Jane''"
  by (simp add: Author_str_def format_str_def)

end
